theory Spec2Isabelle
  imports Main "HOL-Library.AList"
begin

section \<open>Python values and exceptions\<close>

text \<open>
  The device protocol carries JSON text. \<open>json.loads\<close> turns it into Python values:
  \<open>None\<close>, booleans, unbounded integers, floats, strings, lists and dictionaries. A
  dictionary is an association list that holds one binding per key; \<open>map_of\<close> reads it.
  A float is kept as mantissa and binary exponent (or as one of the non-finite values
  \<open>json.loads\<close> accepts); the code only ever tests a float for truth.
\<close>

datatype pyfloat = Finite int int | Infinity bool | NaN

datatype json =
    JNone
  | JBool bool
  | JInt int
  | JFloat pyfloat
  | JStr string
  | JArr "json list"
  | JObj "(string \<times> json) list"

text \<open>
  The exceptions the modelled code can meet. \<open>NonException\<close> stands for a
  \<open>BaseException\<close> that is not an \<open>Exception\<close> (a cancelled task, an interrupt):
  \<open>except Exception\<close> does not catch it.
\<close>

datatype exn =
    JSONDecodeError
  | KeyError string
  | TypeError
  | AttributeError
  | IndexError
  | CommandEndpointRuntimeException string
  | WebSocketDisconnect
  | ConnectionClosed
  | OtherException string
  | NonException string

fun is_Exception :: "exn \<Rightarrow> bool" where
  "is_Exception (NonException _) = False"
| "is_Exception _ = True"

subsection \<open>The operators the handlers use\<close>

fun starts_with :: "string \<Rightarrow> string \<Rightarrow> bool" where
  "starts_with [] _ = True"
| "starts_with (p # ps) [] = False"
| "starts_with (p # ps) (c # cs) = (p = c \<and> starts_with ps cs)"

fun substring_of :: "string \<Rightarrow> string \<Rightarrow> bool" where
  "substring_of p [] = (p = [])"
| "substring_of p (c # cs) = (starts_with p (c # cs) \<or> substring_of p cs)"

text \<open>
  \<open>k in v\<close> for a string literal \<open>k\<close>: key membership on a dictionary, element
  membership on a list, substring test on a string, \<open>TypeError\<close> on anything else.
\<close>

fun py_contains :: "string \<Rightarrow> json \<Rightarrow> exn + bool" where
  "py_contains k (JObj kvs) = Inr (map_of kvs k \<noteq> None)"
| "py_contains k (JArr xs) = Inr (JStr k \<in> set xs)"
| "py_contains k (JStr s) = Inr (substring_of k s)"
| "py_contains k _ = Inl TypeError"

text \<open>
  \<open>v[k]\<close> for a string literal \<open>k\<close>: lookup on a dictionary (\<open>KeyError\<close> when the key
  is absent); a list or a string refuses a string index, the other values are not
  subscriptable.
\<close>

fun py_getitem :: "json \<Rightarrow> string \<Rightarrow> exn + json" where
  "py_getitem (JObj kvs) k = (case map_of kvs k of None \<Rightarrow> Inl (KeyError k) | Some v \<Rightarrow> Inr v)"
| "py_getitem _ k = Inl TypeError"

text \<open>
  \<open>str.upper()\<close>. A string is its UTF-8 bytes. On text that is ASCII throughout the
  method maps \<open>a\<close> to \<open>z\<close> onto \<open>A\<close> to \<open>Z\<close> and leaves the rest; on any other text
  it follows the case mapping of the Unicode database, which is a parameter here
  (\<open>unicode_upper\<close>). A value that is not a string has no such method.
\<close>

definition upper_char :: "char \<Rightarrow> char" where
  "upper_char c =
     (let n = (of_char c :: nat)
      in if of_char CHR ''a'' \<le> n \<and> n \<le> of_char CHR ''z'' then char_of (n - 32) else c)"

definition is_ascii :: "string \<Rightarrow> bool" where
  "is_ascii t = list_all (\<lambda>c. (of_char c :: nat) < 128) t"

definition str_upper :: "(string \<Rightarrow> string) \<Rightarrow> string \<Rightarrow> string" where
  "str_upper unicode_upper t = (if is_ascii t then map upper_char t else unicode_upper t)"

fun py_upper :: "(string \<Rightarrow> string) \<Rightarrow> json \<Rightarrow> exn + json" where
  "py_upper unicode_upper (JStr t) = Inr (JStr (str_upper unicode_upper t))"
| "py_upper unicode_upper _ = Inl AttributeError"

text \<open>Truth value of a Python value, as \<open>and\<close> and \<open>if\<close> take it.\<close>

fun truthy :: "json \<Rightarrow> bool" where
  "truthy JNone = False"
| "truthy (JBool b) = b"
| "truthy (JInt n) = (n \<noteq> 0)"
| "truthy (JFloat (Finite m e)) = (m \<noteq> 0)"
| "truthy (JFloat _) = True"
| "truthy (JStr s) = (s \<noteq> [])"
| "truthy (JArr xs) = (xs \<noteq> [])"
| "truthy (JObj kvs) = (kvs \<noteq> [])"

subsection \<open>The format \<open>%02x\<close>\<close>

definition hex_digit :: "nat \<Rightarrow> char" where
  "hex_digit d = ''0123456789abcdef'' ! (d mod 16)"

fun hex_digits :: "nat \<Rightarrow> string" where
  "hex_digits n = (if n < 16 then [hex_digit n] else hex_digits (n div 16) @ [hex_digit (n mod 16)])"

text \<open>
  \<open>'%02x' % n\<close>: lower-case hexadecimal, a minus sign for a negative number, zeros
  between sign and digits up to a total width of two.
\<close>

definition format_02x :: "int \<Rightarrow> string" where
  "format_02x n =
     (let sign = (if n < 0 then ''-'' else '''');
          digits = hex_digits (nat \<bar>n\<bar>)
      in sign @ replicate (2 - (length sign + length digits)) CHR ''0'' @ digits)"

text \<open>\<open>%x\<close> takes an integer (a boolean is one) and raises \<open>TypeError\<close> on the rest.\<close>

fun as_integer :: "json \<Rightarrow> exn + int" where
  "as_integer (JInt n) = Inr n"
| "as_integer (JBool b) = Inr (if b then 1 else 0)"
| "as_integer _ = Inl TypeError"

fun format_all :: "json list \<Rightarrow> exn + string list" where
  "format_all [] = Inr []"
| "format_all (v # vs) =
     (case as_integer v of
        Inl e \<Rightarrow> Inl e
      | Inr n \<Rightarrow> (case format_all vs of Inl e \<Rightarrow> Inl e | Inr ss \<Rightarrow> Inr (format_02x n # ss)))"

fun join_colon :: "string list \<Rightarrow> string" where
  "join_colon [] = []"
| "join_colon [s] = s"
| "join_colon (s # t # ss) = s @ '':'' @ join_colon (t # ss)"

subsection \<open>\<open>hex_mac\<close> (src/app/main.py)\<close>

text \<open>
  A list is rendered from its elements 0 to 5: the six subscripts are evaluated first
  (\<open>IndexError\<close> on a shorter list), then formatted in order. Any other value is
  returned as it is.
\<close>

fun hex_mac :: "json \<Rightarrow> exn + json" where
  "hex_mac (JArr mac) =
     (if length mac < 6 then Inl IndexError
      else (case format_all [mac ! 0, mac ! 1, mac ! 2, mac ! 3, mac ! 4, mac ! 5] of
              Inl e \<Rightarrow> Inl e
            | Inr ss \<Rightarrow> Inr (JStr (join_colon ss))))"
| "hex_mac mac = Inr mac"

section \<open>Application state\<close>

text \<open>
  Modelled from the spec: the classes \<open>Client\<close> (app/internal/client.py),
  \<open>WakeEvent\<close> and \<open>WakeSession\<close> (app/internal/wake.py), \<open>CommandEndpointResult\<close>
  and \<open>CommandEndpointResponse\<close> (app/internal/command_endpoints) are not among the
  files. The records carry the attributes the specification gives them, which are the
  ones the handlers read and write. A connection handle stands for the \<open>WebSocket\<close>
  object of one device.
\<close>

type_synonym ws = nat

record Client =
  ua :: "string option"
  hostname :: "json option"
  platform :: "json option"
  mac_addr :: "json option"

record WakeEvent =
  client :: ws
  volume :: json

record WakeSession =
  events :: "WakeEvent list"
  session_done :: bool

datatype CommandEndpointResult = CommandEndpointResult (speech: string)

datatype CommandEndpointResponse = CommandEndpointResponse (result: CommandEndpointResult)

text \<open>
  What \<open>websocket.send_text\<close> is given: a string as it is, or the
  \<open>model_dump_json()\<close> of a response object.
\<close>

datatype sent = Text_sent string | Json_dump CommandEndpointResponse

record MqttConfig =
  mqtt_auth_type :: "json option"
  mqtt_hostname :: "json option"
  mqtt_port :: "json option"
  mqtt_tls :: "json option"
  mqtt_topic :: "json option"
  mqtt_password :: "json option"
  mqtt_username :: "json option"

record RestConfig =
  rest_auth_type :: "json option"
  rest_auth_header :: "json option"
  rest_auth_pass :: "json option"
  rest_auth_user :: "json option"

text \<open>
  Modelled from the spec: the adapter classes (app/internal/command_endpoints/ha_ws.py,
  mqtt.py, openhab.py, rest.py) are not among the files. An adapter is the variant of
  the endpoint configuration that \<open>init_command_endpoint\<close> constructs it from; a
  configuration field is \<open>None\<close> until its setter has been called. What the methods
  of an adapter do is a parameter (\<open>world\<close> below).
\<close>

datatype endpoint =
    HomeAssistantWebSocketEndpoint json json json json
  | MqttEndpoint MqttConfig
  | OpenhabEndpoint json json
  | RestEndpoint json RestConfig

text \<open>One constructor per logging call of the two source files.\<close>

datatype log_entry =
    Debug_data string
  | Debug_sending json string
  | Debug_got_response "string option"
  | Error_unreachable exn
  | Error_not_active
  | Error_unhandled exn
  | Info_was_mode_enabled

text \<open>
  The shared state of the process: the connection registry, the module-level
  \<open>wake_session\<close>, the notification queue's pending acknowledgements and the
  \<open>command_endpoint\<close> slot of the application object, with the effects the handlers
  leave behind: the texts handed to \<open>send_text\<close>, the log, the \<open>stop()\<close> calls made
  and the number of cleanup tasks created.

  \<open>wake_session\<close> holds the object the global name refers to. A session that the
  global no longer names is still referred to by its cleanup task; \<open>detached\<close> keeps
  those objects, oldest first.
\<close>

record app_state =
  connmgr :: "(ws \<times> Client) list"
  wake_session :: "WakeSession option"
  detached :: "WakeSession list"
  cleanup_tasks :: nat
  notify_pending :: "(ws \<times> json) list"
  command_endpoint :: "endpoint option"
  stop_calls :: "endpoint list"
  outbox :: "(ws \<times> sent) list"
  log :: "log_entry list"

text \<open>
  What the collaborators outside the two files do when called: the adapter methods, the
  configuration store and the message builder, and with them the Unicode case mapping
  that \<open>str.upper()\<close> consults for text outside ASCII. An adapter method returns or
  raises.
\<close>

record world =
  ep_name :: "endpoint \<Rightarrow> string"
  ep_send :: "endpoint \<Rightarrow> json \<Rightarrow> ws \<Rightarrow> exn + string option"
  ep_parse_response :: "endpoint \<Rightarrow> string \<Rightarrow> exn + string option"
  ep_stop :: "endpoint \<Rightarrow> exn option"
  get_config_db :: "exn + (string \<times> json) list"
  build_msg :: "json \<Rightarrow> string \<Rightarrow> string"
  unicode_upper :: "string \<Rightarrow> string"

text \<open>The state after \<open>lifespan\<close> has created the registry and cleared the slot.\<close>

definition initial_state :: app_state where
  "initial_state =
     \<lparr>connmgr = [], wake_session = None, detached = [], cleanup_tasks = 0,
      notify_pending = [], command_endpoint = None, stop_calls = [], outbox = [], log = []\<rparr>"

subsection \<open>Registry, notification queue and wake session\<close>

text \<open>
  Modelled from the spec: \<open>ConnMgr.accept\<close>, \<open>ConnMgr.update_client\<close>,
  \<open>ConnMgr.disconnect\<close> (app/internal/connmgr.py) and \<open>NotifyQueue.done\<close>
  (app/internal/notify.py) are not among the files. \<open>Accept\<close> registers and never fails;
  \<open>UpdateField\<close> sets one of hostname, platform, macAddr and is a no-op for an unknown
  handle; \<open>Disconnect\<close> is idempotent and purges the connection's pending
  notifications; \<open>Done\<close> removes the matching pending entry and is silent otherwise.
\<close>

definition accept :: "ws \<Rightarrow> Client \<Rightarrow> app_state \<Rightarrow> app_state" where
  "accept websocket c s = s\<lparr>connmgr := AList.update websocket c (connmgr s)\<rparr>"

definition set_field :: "string \<Rightarrow> json \<Rightarrow> Client \<Rightarrow> Client" where
  "set_field key v c =
     (if key = ''hostname'' then c\<lparr>hostname := Some v\<rparr>
      else if key = ''platform'' then c\<lparr>platform := Some v\<rparr>
      else if key = ''mac_addr'' then c\<lparr>mac_addr := Some v\<rparr>
      else c)"

definition update_client :: "ws \<Rightarrow> string \<Rightarrow> json \<Rightarrow> app_state \<Rightarrow> app_state" where
  "update_client websocket key v s =
     (case map_of (connmgr s) websocket of
        None \<Rightarrow> s
      | Some c \<Rightarrow> s\<lparr>connmgr := AList.update websocket (set_field key v c) (connmgr s)\<rparr>)"

definition disconnect :: "ws \<Rightarrow> app_state \<Rightarrow> app_state" where
  "disconnect websocket s =
     s\<lparr>connmgr := AList.delete websocket (connmgr s),
       notify_pending := filter (\<lambda>p. fst p \<noteq> websocket) (notify_pending s)\<rparr>"

definition notify_done :: "ws \<Rightarrow> json \<Rightarrow> app_state \<Rightarrow> app_state" where
  "notify_done websocket ident s =
     s\<lparr>notify_pending := filter (\<lambda>p. p \<noteq> (websocket, ident)) (notify_pending s)\<rparr>"

text \<open>
  Modelled from the spec: the class \<open>WakeSession\<close> (app/internal/wake.py) is not among
  the files. A new session is Open with no events; \<open>add_event\<close> appends to the ordered
  sequence of events; the cleanup task, when it fires, makes its session Done.
\<close>

definition WakeSession :: WakeSession where
  "WakeSession = \<lparr>events = [], session_done = False\<rparr>"

definition add_event :: "WakeEvent \<Rightarrow> WakeSession \<Rightarrow> WakeSession" where
  "add_event ev w = w\<lparr>events := events w @ [ev]\<rparr>"

datatype task_target = Current | Detached nat

fun cleanup :: "task_target \<Rightarrow> app_state \<Rightarrow> app_state" where
  "cleanup Current s =
     (case wake_session s of
        None \<Rightarrow> s
      | Some w \<Rightarrow> s\<lparr>wake_session := Some (w\<lparr>session_done := True\<rparr>)\<rparr>)"
| "cleanup (Detached i) s =
     (if i < length (detached s)
      then s\<lparr>detached := (detached s)[i := (detached s ! i)\<lparr>session_done := True\<rparr>]\<rparr>
      else s)"

subsection \<open>Effects\<close>

definition send_text :: "ws \<Rightarrow> sent \<Rightarrow> app_state \<Rightarrow> app_state" where
  "send_text websocket t s = s\<lparr>outbox := outbox s @ [(websocket, t)]\<rparr>"

definition log_call :: "log_entry \<Rightarrow> app_state \<Rightarrow> app_state" where
  "log_call l s = s\<lparr>log := log s @ [l]\<rparr>"

text \<open>
  A statement either completes or raises; what it did to the state before raising
  stays done. \<open>and_then\<close> runs the next statement only after a completed one.
\<close>

definition and_then ::
  "exn option \<times> app_state \<Rightarrow> (app_state \<Rightarrow> exn option \<times> app_state) \<Rightarrow> exn option \<times> app_state"
where
  "and_then r f = (case r of (None, s) \<Rightarrow> f s | (Some e, s) \<Rightarrow> (Some e, s))"

section \<open>The connection session (\<open>websocket_endpoint\<close>, src/app/main.py)\<close>

subsection \<open>\<open>wake_start\<close>\<close>

text \<open>
  \<open>del wake_session\<close> followed by the assignment makes the global name a new
  object; the old one moves to \<open>detached\<close>. Either construction is followed by
  \<open>asyncio.create_task(wake_session.cleanup())\<close>.
\<close>

definition new_wake_session :: "app_state \<Rightarrow> app_state" where
  "new_wake_session s =
     s\<lparr>detached := detached s @ (case wake_session s of None \<Rightarrow> [] | Some old \<Rightarrow> [old]),
       wake_session := Some WakeSession,
       cleanup_tasks := Suc (cleanup_tasks s)\<rparr>"

definition open_or_keep_session :: "app_state \<Rightarrow> app_state" where
  "open_or_keep_session s =
     (case wake_session s of
        Some w \<Rightarrow> if session_done w then new_wake_session s else s
      | None \<Rightarrow> new_wake_session s)"

definition record_wake_event :: "WakeEvent \<Rightarrow> app_state \<Rightarrow> exn option \<times> app_state" where
  "record_wake_event wake_event s =
     (case wake_session s of
        None \<Rightarrow> (Some AttributeError, s)
      | Some w \<Rightarrow> (None, s\<lparr>wake_session := Some (add_event wake_event w)\<rparr>))"

definition on_wake_start :: "ws \<Rightarrow> json \<Rightarrow> app_state \<Rightarrow> exn option \<times> app_state" where
  "on_wake_start websocket msg s =
     (let s1 = open_or_keep_session s
      in case py_getitem msg ''wake_start'' of
           Inl e \<Rightarrow> (Some e, s1)
         | Inr body \<Rightarrow>
             (case py_contains ''wake_volume'' body of
                Inl e \<Rightarrow> (Some e, s1)
              | Inr False \<Rightarrow> (None, s1)
              | Inr True \<Rightarrow>
                  (case py_getitem body ''wake_volume'' of
                     Inl e \<Rightarrow> (Some e, s1)
                   | Inr v \<Rightarrow> record_wake_event \<lparr>client = websocket, volume = v\<rparr> s1)))"

subsection \<open>\<open>cmd\<close>\<close>

definition speech_reply :: "string \<Rightarrow> sent" where
  "speech_reply text = Json_dump (CommandEndpointResponse (CommandEndpointResult text))"

text \<open>The \<open>except CommandEndpointRuntimeException\<close> clause around send and parse.\<close>

fun endpoint_raised :: "ws \<Rightarrow> exn \<Rightarrow> app_state \<Rightarrow> exn option \<times> app_state" where
  "endpoint_raised websocket (CommandEndpointRuntimeException cause) s =
     (None, log_call (Error_unreachable (CommandEndpointRuntimeException cause))
              (send_text websocket (speech_reply ''WAS Command Endpoint unreachable'') s))"
| "endpoint_raised websocket e s = (Some e, s)"

definition on_cmd_endpoint :: "world \<Rightarrow> ws \<Rightarrow> json \<Rightarrow> app_state \<Rightarrow> exn option \<times> app_state" where
  "on_cmd_endpoint w websocket msg s =
     (case command_endpoint s of
        Some ep \<Rightarrow>
          (case py_getitem msg ''data'' of
             Inl e \<Rightarrow> (Some e, s)
           | Inr data \<Rightarrow>
               (let s1 = log_call (Debug_sending data (ep_name w ep)) s
                in case ep_send w ep data websocket of
                     Inl e \<Rightarrow> endpoint_raised websocket e s1
                   | Inr None \<Rightarrow> (None, s1)
                   | Inr (Some raw) \<Rightarrow>
                       (case ep_parse_response w ep raw of
                          Inl e \<Rightarrow> endpoint_raised websocket e s1
                        | Inr resp \<Rightarrow>
                            (let s2 = log_call (Debug_got_response resp) s1
                             in case resp of
                                  None \<Rightarrow> (None, s2)
                                | Some text \<Rightarrow> (None, send_text websocket (Text_sent text) s2)))))
      | None \<Rightarrow>
          (None, log_call Error_not_active
                   (send_text websocket (speech_reply ''WAS Command Endpoint not active'') s)))"

definition on_cmd :: "world \<Rightarrow> ws \<Rightarrow> json \<Rightarrow> app_state \<Rightarrow> exn option \<times> app_state" where
  "on_cmd w websocket msg s =
     (case py_getitem msg ''cmd'' of
        Inl e \<Rightarrow> (Some e, s)
      | Inr cmd \<Rightarrow>
          if cmd = JStr ''endpoint'' then on_cmd_endpoint w websocket msg s
          else if cmd = JStr ''get_config'' then
            (case get_config_db w of
               Inl e \<Rightarrow> (Some e, s)
             | Inr config \<Rightarrow>
                 (None, send_text websocket (Text_sent (build_msg w (JObj config) ''config'')) s))
          else (None, s))"

subsection \<open>\<open>notify_done\<close> and \<open>hello\<close>\<close>

definition on_notify_done :: "ws \<Rightarrow> json \<Rightarrow> app_state \<Rightarrow> exn option \<times> app_state" where
  "on_notify_done websocket msg s =
     (case py_getitem msg ''notify_done'' of
        Inl e \<Rightarrow> (Some e, s)
      | Inr ident \<Rightarrow> (None, notify_done websocket ident s))"

text \<open>
  One \<open>if key in msg["hello"]: update_client(...)\<close> statement; \<open>convert\<close> is what
  the value goes through before it is stored.
\<close>

definition hello_field ::
  "ws \<Rightarrow> json \<Rightarrow> string \<Rightarrow> string \<Rightarrow> (json \<Rightarrow> exn + json) \<Rightarrow> app_state \<Rightarrow> exn option \<times> app_state"
where
  "hello_field websocket msg key field convert s =
     (case py_getitem msg ''hello'' of
        Inl e \<Rightarrow> (Some e, s)
      | Inr body \<Rightarrow>
          (case py_contains key body of
             Inl e \<Rightarrow> (Some e, s)
           | Inr False \<Rightarrow> (None, s)
           | Inr True \<Rightarrow>
               (case py_getitem body key of
                  Inl e \<Rightarrow> (Some e, s)
                | Inr v \<Rightarrow>
                    (case convert v of
                       Inl e \<Rightarrow> (Some e, s)
                     | Inr v' \<Rightarrow> (None, update_client websocket field v' s)))))"

definition on_hello :: "world \<Rightarrow> ws \<Rightarrow> json \<Rightarrow> app_state \<Rightarrow> exn option \<times> app_state" where
  "on_hello w websocket msg s =
     and_then (hello_field websocket msg ''hostname'' ''hostname'' Inr s) (\<lambda>s1.
     and_then (hello_field websocket msg ''hw_type'' ''platform'' (py_upper (unicode_upper w)) s1) (\<lambda>s2.
     hello_field websocket msg ''mac_addr'' ''mac_addr'' hex_mac s2))"

subsection \<open>Dispatch on the keys of the message\<close>

text \<open>
  The \<open>if\<close>/\<open>elif\<close> chain of the loop body: the first key found decides; a key test
  that raises ends the chain.
\<close>

fun dispatch ::
  "json \<Rightarrow> (string \<times> (app_state \<Rightarrow> exn option \<times> app_state)) list \<Rightarrow> app_state
     \<Rightarrow> exn option \<times> app_state"
where
  "dispatch msg [] s = (None, s)"
| "dispatch msg ((key, branch) # rest) s =
     (case py_contains key msg of
        Inl e \<Rightarrow> (Some e, s)
      | Inr True \<Rightarrow> branch s
      | Inr False \<Rightarrow> dispatch msg rest s)"

definition handle_message :: "world \<Rightarrow> ws \<Rightarrow> json \<Rightarrow> app_state \<Rightarrow> exn option \<times> app_state" where
  "handle_message w websocket msg s =
     dispatch msg
       [(''wake_start'', on_wake_start websocket msg),
        (''wake_end'', \<lambda>s. (None, s)),
        (''notify_done'', on_notify_done websocket msg),
        (''cmd'', on_cmd w websocket msg),
        (''goodbye'', \<lambda>s. (None, disconnect websocket s)),
        (''hello'', on_hello w websocket msg)] s"

subsection \<open>The read loop\<close>

text \<open>
  What \<open>await websocket.receive_text()\<close> gives: a text together with what
  \<open>json.loads\<close> makes of it (\<open>None\<close> when it raises \<open>JSONDecodeError\<close>), or an
  exception.
\<close>

datatype frame = Text string "json option" | Receive_raises exn

text \<open>
  Where the handler stands after the frames so far: waiting in \<open>receive_text\<close> with the
  loop alive, returned, or left by an exception that no clause caught.
\<close>

datatype status = Awaiting | Returned | Propagated exn

text \<open>The three \<open>except\<close> clauses; they enclose the whole \<open>while\<close> loop.\<close>

definition loop_raised :: "ws \<Rightarrow> exn \<Rightarrow> app_state \<Rightarrow> status \<times> app_state" where
  "loop_raised websocket e s =
     (if e = WebSocketDisconnect then (Returned, disconnect websocket s)
      else if e = ConnectionClosed then (Returned, disconnect websocket s)
      else if is_Exception e then (Returned, log_call (Error_unhandled e) s)
      else (Propagated e, s))"

text \<open>The statements of one pass through the loop body.\<close>

fun loop_body :: "world \<Rightarrow> ws \<Rightarrow> frame \<Rightarrow> app_state \<Rightarrow> exn option \<times> app_state" where
  "loop_body w websocket (Receive_raises e) s = (Some e, s)"
| "loop_body w websocket (Text data decoded) s =
     (let s1 = log_call (Debug_data data) s
      in case decoded of
           None \<Rightarrow> (Some JSONDecodeError, s1)
         | Some msg \<Rightarrow> handle_message w websocket msg s1)"

fun session_loop :: "world \<Rightarrow> ws \<Rightarrow> frame list \<Rightarrow> app_state \<Rightarrow> status \<times> app_state" where
  "session_loop w websocket [] s = (Awaiting, s)"
| "session_loop w websocket (f # fs) s =
     (case loop_body w websocket f s of
        (None, s') \<Rightarrow> session_loop w websocket fs s'
      | (Some e, s') \<Rightarrow> loop_raised websocket e s')"

definition websocket_endpoint ::
  "world \<Rightarrow> ws \<Rightarrow> string option \<Rightarrow> frame list \<Rightarrow> app_state \<Rightarrow> status \<times> app_state"
where
  "websocket_endpoint w websocket user_agent frames s =
     session_loop w websocket frames
       (accept websocket \<lparr>ua = user_agent, hostname = None, platform = None, mac_addr = None\<rparr> s)"

section \<open>\<open>init_command_endpoint\<close> (src/app/internal/command_endpoints/main.py)\<close>

text \<open>
  The stored configuration is a dictionary. \<open>hasattr\<close> on a dictionary asks for an
  attribute of the \<open>dict\<close> object, never for a key; these are the attributes a
  dictionary has.
\<close>

definition dict_attributes :: "string list" where
  "dict_attributes =
     [''__class__'', ''__class_getitem__'', ''__contains__'', ''__delattr__'',
      ''__delitem__'', ''__dir__'', ''__doc__'', ''__eq__'', ''__format__'', ''__ge__'',
      ''__getattribute__'', ''__getitem__'', ''__getstate__'', ''__gt__'', ''__hash__'',
      ''__init__'', ''__init_subclass__'', ''__ior__'', ''__iter__'', ''__le__'',
      ''__len__'', ''__lt__'', ''__ne__'', ''__new__'', ''__or__'', ''__reduce__'',
      ''__reduce_ex__'', ''__repr__'', ''__reversed__'', ''__ror__'', ''__setattr__'',
      ''__setitem__'', ''__sizeof__'', ''__str__'', ''__subclasshook__'', ''clear'',
      ''copy'', ''fromkeys'', ''get'', ''items'', ''keys'', ''pop'', ''popitem'',
      ''setdefault'', ''update'', ''values'']"

definition hasattr :: "(string \<times> json) list \<Rightarrow> string \<Rightarrow> bool" where
  "hasattr d name = (name \<in> set dict_attributes)"

definition bind_exn :: "exn + 'a \<Rightarrow> ('a \<Rightarrow> exn + 'b) \<Rightarrow> exn + 'b" where
  "bind_exn r f = (case r of Inl e \<Rightarrow> Inl e | Inr x \<Rightarrow> f x)"

text \<open>\<open>user_config[k]\<close>, and a setter called only when its key is in the dictionary.\<close>

definition config_get :: "(string \<times> json) list \<Rightarrow> string \<Rightarrow> exn + json" where
  "config_get user_config k = py_getitem (JObj user_config) k"

definition config_maybe :: "(string \<times> json) list \<Rightarrow> string \<Rightarrow> json option" where
  "config_maybe user_config k = map_of user_config k"

text \<open>
  The call \<open>app.command_endpoint.stop()\<close> inside \<open>try\<close> ... \<open>except Exception: pass\<close>.
  With no adapter installed the attribute lookup on \<open>None\<close> raises and is passed over.
\<close>

definition stop_previous :: "world \<Rightarrow> app_state \<Rightarrow> exn option \<times> app_state" where
  "stop_previous w s =
     (case command_endpoint s of
        None \<Rightarrow> (None, s)
      | Some ep \<Rightarrow>
          (let s1 = s\<lparr>stop_calls := stop_calls s @ [ep]\<rparr>
           in case ep_stop w ep of
                None \<Rightarrow> (None, s1)
              | Some e \<Rightarrow> if is_Exception e then (None, s1) else (Some e, s1)))"

definition install :: "endpoint \<Rightarrow> app_state \<Rightarrow> app_state" where
  "install ep s = s\<lparr>command_endpoint := Some ep\<rparr>"

definition home_assistant_endpoint :: "(string \<times> json) list \<Rightarrow> exn + endpoint" where
  "home_assistant_endpoint user_config =
     bind_exn (config_get user_config ''hass_host'') (\<lambda>host.
     bind_exn (config_get user_config ''hass_port'') (\<lambda>port.
     bind_exn (config_get user_config ''hass_tls'') (\<lambda>tls.
     bind_exn (config_get user_config ''hass_token'') (\<lambda>token.
     Inr (HomeAssistantWebSocketEndpoint host port tls token)))))"

definition mqtt_endpoint :: "(string \<times> json) list \<Rightarrow> exn + endpoint" where
  "mqtt_endpoint user_config =
     bind_exn (config_get user_config ''mqtt_auth_type'') (\<lambda>auth_type.
     bind_exn (config_get user_config ''mqtt_host'') (\<lambda>host.
     bind_exn (config_get user_config ''mqtt_port'') (\<lambda>port.
     bind_exn (config_get user_config ''mqtt_tls'') (\<lambda>tls.
     bind_exn (config_get user_config ''mqtt_topic'') (\<lambda>topic.
     Inr (MqttEndpoint
            \<lparr>mqtt_auth_type = Some auth_type, mqtt_hostname = Some host,
             mqtt_port = Some port, mqtt_tls = Some tls, mqtt_topic = Some topic,
             mqtt_password = config_maybe user_config ''mqtt_password'',
             mqtt_username = config_maybe user_config ''mqtt_username''\<rparr>))))))"

definition openhab_endpoint :: "(string \<times> json) list \<Rightarrow> exn + endpoint" where
  "openhab_endpoint user_config =
     bind_exn (config_get user_config ''openhab_url'') (\<lambda>url.
     bind_exn (config_get user_config ''openhab_token'') (\<lambda>token.
     Inr (OpenhabEndpoint url token)))"

text \<open>
  The REST adapter is assigned to the slot as soon as it is constructed; the four
  settings follow, each behind its own test.
\<close>

definition rest_endpoint :: "(string \<times> json) list \<Rightarrow> app_state \<Rightarrow> exn option \<times> app_state" where
  "rest_endpoint user_config s =
     (case config_get user_config ''rest_url'' of
        Inl e \<Rightarrow> (Some e, s)
      | Inr url \<Rightarrow>
          (let unset = \<lparr>rest_auth_type = None, rest_auth_header = None,
                        rest_auth_pass = None, rest_auth_user = None\<rparr>;
               s1 = install (RestEndpoint url unset) s
           in case (if hasattr user_config ''rest_auth_type''
                    then bind_exn (config_get user_config ''rest_auth_type'') (\<lambda>v. Inr (Some v))
                    else Inr None) of
                Inl e \<Rightarrow> (Some e, s1)
              | Inr auth_type \<Rightarrow>
                  (None, install (RestEndpoint url
                           \<lparr>rest_auth_type = auth_type,
                            rest_auth_header = config_maybe user_config ''rest_auth_header'',
                            rest_auth_pass = config_maybe user_config ''rest_auth_pass'',
                            rest_auth_user = config_maybe user_config ''rest_auth_user''\<rparr>) s1)))"

definition install_or_raise :: "exn + endpoint \<Rightarrow> app_state \<Rightarrow> exn option \<times> app_state" where
  "install_or_raise r s = (case r of Inl e \<Rightarrow> (Some e, s) | Inr ep \<Rightarrow> (None, install ep s))"

definition select_endpoint :: "(string \<times> json) list \<Rightarrow> app_state \<Rightarrow> exn option \<times> app_state" where
  "select_endpoint user_config s =
     (if (case map_of user_config ''was_mode'' of None \<Rightarrow> False | Some v \<Rightarrow> truthy v) then
        (let s1 = log_call Info_was_mode_enabled s
         in case config_get user_config ''command_endpoint'' of
              Inl e \<Rightarrow> (Some e, s1)
            | Inr kind \<Rightarrow>
                if kind = JStr ''Home Assistant'' then
                  install_or_raise (home_assistant_endpoint user_config) s1
                else if kind = JStr ''MQTT'' then
                  install_or_raise (mqtt_endpoint user_config) s1
                else if kind = JStr ''openHAB'' then
                  install_or_raise (openhab_endpoint user_config) s1
                else if kind = JStr ''REST'' then rest_endpoint user_config s1
                else (None, s1))
      else (None, s))"

definition init_command_endpoint :: "world \<Rightarrow> app_state \<Rightarrow> exn option \<times> app_state" where
  "init_command_endpoint w s =
     and_then (stop_previous w s) (\<lambda>s1.
       case get_config_db w of
         Inl e \<Rightarrow> (Some e, s1)
       | Inr user_config \<Rightarrow> select_endpoint user_config s1)"

section \<open>The process as a transition system\<close>

text \<open>
  Tasks interleave at their suspension points, so between two of them one of these
  happens: a connection is accepted, a session runs one pass of its loop body (ended by
  the \<open>except\<close> clauses if it raised), a cleanup task fires, or the command endpoint is
  initialised again.
\<close>

definition loop_pass :: "world \<Rightarrow> ws \<Rightarrow> frame \<Rightarrow> app_state \<Rightarrow> app_state" where
  "loop_pass w websocket f s = snd (session_loop w websocket [f] s)"

inductive reachable :: "app_state \<Rightarrow> bool" where
  start: "reachable initial_state"
| accepted: "reachable s \<Longrightarrow> reachable (accept websocket c s)"
| passed: "reachable s \<Longrightarrow> reachable (loop_pass w websocket f s)"
| cleaned: "reachable s \<Longrightarrow> reachable (cleanup t s)"
| configured: "reachable s \<Longrightarrow> reachable (snd (init_command_endpoint w s))"

text \<open>Every session object alive, and those among them that are Open.\<close>

definition all_sessions :: "app_state \<Rightarrow> WakeSession list" where
  "all_sessions s = detached s @ (case wake_session s of None \<Rightarrow> [] | Some w \<Rightarrow> [w])"

definition open_sessions :: "app_state \<Rightarrow> WakeSession list" where
  "open_sessions s = filter (\<lambda>w. \<not> session_done w) (all_sessions s)"

section \<open>Reference definitions\<close>

text \<open>
  The canonical form of a MAC address in the words of the specification: each byte as
  two lower-case hexadecimal digits, the bytes separated by colons.
\<close>

definition lower_hex_char :: "nat \<Rightarrow> char" where
  "lower_hex_char d =
     (if d < 10 then char_of (of_char CHR ''0'' + d) else char_of (of_char CHR ''a'' + (d - 10)))"

definition two_digit_hex :: "int \<Rightarrow> string" where
  "two_digit_hex b = [lower_hex_char (nat b div 16), lower_hex_char (nat b mod 16)]"

fun canonical_mac :: "int list \<Rightarrow> string" where
  "canonical_mac [] = []"
| "canonical_mac [b] = two_digit_hex b"
| "canonical_mac (b # bs) = two_digit_hex b @ '':'' @ canonical_mac bs"

subsection \<open>Messages and collaborators used as examples\<close>

definition is_endpoint_command :: "json \<Rightarrow> bool" where
  "is_endpoint_command msg =
     (py_contains ''wake_start'' msg = Inr False \<and> py_contains ''wake_end'' msg = Inr False
      \<and> py_contains ''notify_done'' msg = Inr False
      \<and> py_getitem msg ''cmd'' = Inr (JStr ''endpoint''))"

definition example_config :: "(string \<times> json) list" where
  "example_config =
     [(''was_mode'', JBool True), (''command_endpoint'', JStr ''REST''),
      (''rest_url'', JStr ''http://hub/api''), (''rest_auth_type'', JStr ''Basic''),
      (''rest_auth_user'', JStr ''willow''), (''rest_auth_pass'', JStr ''secret'')]"

text \<open>
  A world for the examples: every \<open>send\<close> times out, every \<open>stop()\<close> raises, the
  stored configuration selects the REST endpoint. The texts of the examples are ASCII,
  so the Unicode case mapping is never consulted.
\<close>

definition example_world :: world where
  "example_world =
     \<lparr>ep_name = (\<lambda>ep. ''REST''),
      ep_send = (\<lambda>ep data websocket. Inl (CommandEndpointRuntimeException ''timed out'')),
      ep_parse_response = (\<lambda>ep raw. Inr (Some raw)),
      ep_stop = (\<lambda>ep. Some (OtherException ''stop failed'')),
      get_config_db = Inr example_config,
      build_msg = (\<lambda>config kind. kind),
      unicode_upper = (\<lambda>t. t)\<rparr>"

definition wake_start_msg :: json where
  "wake_start_msg = JObj [(''wake_start'', JObj [(''wake_volume'', JInt 7)])]"

definition wake_end_msg :: json where
  "wake_end_msg = JObj [(''wake_end'', JObj [])]"

definition endpoint_msg :: json where
  "endpoint_msg = JObj [(''cmd'', JStr ''endpoint''), (''data'', JObj [(''text'', JStr ''lights on'')])]"

subsection \<open>Wake signals\<close>

text \<open>
  The events of the session that is Open (none when no session is Open), and the events
  one \<open>wake_start\<close> message contributes: one event when its body carries a
  \<open>wake_volume\<close> field, none otherwise.
\<close>

definition open_events :: "app_state \<Rightarrow> WakeEvent list" where
  "open_events s =
     (case wake_session s of
        None \<Rightarrow> []
      | Some w \<Rightarrow> if session_done w then [] else events w)"

definition signal_events :: "ws \<Rightarrow> json \<Rightarrow> WakeEvent list" where
  "signal_events websocket msg =
     (case py_getitem msg ''wake_start'' of
        Inl e \<Rightarrow> []
      | Inr body \<Rightarrow>
          (case py_getitem body ''wake_volume'' of
             Inl e \<Rightarrow> []
           | Inr v \<Rightarrow> [\<lparr>client = websocket, volume = v\<rparr>]))"

definition detached_done :: "app_state \<Rightarrow> bool" where
  "detached_done s = list_all session_done (detached s)"

subsection \<open>Hello messages\<close>













definition hello_msg :: json where
  "hello_msg =
     JObj [(''hello'', JObj [(''hostname'', JStr ''kitchen''), (''hw_type'', JStr ''esp32-s3-box''),
                             (''mac_addr'', JArr [JInt 0xaa, JInt 0xbb, JInt 0xcc,
                                                  JInt 0xdd, JInt 0xee, JInt 0xff])])]"

definition example_endpoint :: endpoint where
  "example_endpoint = OpenhabEndpoint (JStr ''http://openhab:8080'') (JStr ''token'')"

section \<open>Properties\<close>

subsection \<open>MAC normalisation\<close>

declare hex_digits.simps [simp del]

lemma hex_digit_table: "\<forall>d \<in> set [0..<16]. hex_digit d = lower_hex_char d"
  by code_simp

lemma hex_digit_lower: "d < 16 \<Longrightarrow> hex_digit d = lower_hex_char d"
  using hex_digit_table by simp

lemma lower_hex_char_0: "lower_hex_char 0 = CHR ''0''"
  by code_simp

lemma format_02x_byte:
  assumes "0 \<le> b" "b < 256"
  shows "format_02x b = two_digit_hex b"
proof (cases "nat b < 16")
  case True
  then have "hex_digits (nat b) = [hex_digit (nat b)]"
    by (simp add: hex_digits.simps)
  with True assms show ?thesis
    by (simp add: format_02x_def two_digit_hex_def hex_digit_lower lower_hex_char_0)
next
  case False
  from assms have high: "nat b div 16 < 16" by simp
  then have "hex_digits (nat b div 16) = [hex_digit (nat b div 16)]"
    by (simp add: hex_digits.simps)
  with False have "hex_digits (nat b) = [hex_digit (nat b div 16), hex_digit (nat b mod 16)]"
    by (subst hex_digits.simps) simp
  with assms high show ?thesis
    by (simp add: format_02x_def two_digit_hex_def hex_digit_lower)
qed

lemma six_elements: "length bs = 6 \<Longrightarrow> \<exists>a b c d e f. bs = [a, b, c, d, e, f]"
  by (auto simp: length_Suc_conv eval_nat_numeral)

text \<open>
  C6. \<open>hex_mac\<close> maps the preformatted string \<open>aa:bb:cc:dd:ee:ff\<close> and the byte list
  \<open>[0xaa, 0xbb, 0xcc, 0xdd, 0xee, 0xff]\<close> to the same string \<open>aa:bb:cc:dd:ee:ff\<close>,
  and every list of six bytes to the colon-separated two-digit lower-case hexadecimal
  rendering of its elements.
\<close>

theorem hex_mac_canonical:
  assumes "length bs = 6" and "\<forall>b\<in>set bs. 0 \<le> b \<and> b < 256"
  shows "hex_mac (JStr ''aa:bb:cc:dd:ee:ff'') = Inr (JStr ''aa:bb:cc:dd:ee:ff'')
       \<and> hex_mac (JArr [JInt 0xaa, JInt 0xbb, JInt 0xcc, JInt 0xdd, JInt 0xee, JInt 0xff])
           = Inr (JStr ''aa:bb:cc:dd:ee:ff'')
       \<and> hex_mac (JArr (map JInt bs)) = Inr (JStr (canonical_mac bs))"
proof -
  from assms(1) obtain a b c d e f where bs: "bs = [a, b, c, d, e, f]"
    using six_elements by blast
  with assms(2) have "format_02x a = two_digit_hex a" "format_02x b = two_digit_hex b"
    "format_02x c = two_digit_hex c" "format_02x d = two_digit_hex d"
    "format_02x e = two_digit_hex e" "format_02x f = two_digit_hex f"
    by (simp_all add: format_02x_byte)
  then have general: "hex_mac (JArr (map JInt bs)) = Inr (JStr (canonical_mac bs))"
    by (simp add: bs)
  have bytes:
    "hex_mac (JArr [JInt 0xaa, JInt 0xbb, JInt 0xcc, JInt 0xdd, JInt 0xee, JInt 0xff])
       = Inr (JStr ''aa:bb:cc:dd:ee:ff'')"
    by (simp add: format_02x_def hex_digits.simps hex_digit_def)
  show ?thesis using general bytes by simp
qed

theorem hex_mac_canonical_witness:
  "length [0, 17, 34, 127, 128, 255 :: int] = 6
   \<and> hex_mac (JArr (map JInt [0, 17, 34, 127, 128, 255])) = Inr (JStr ''00:11:22:7f:80:ff'')"
proof -
  have bytes: "\<forall>b\<in>set [0, 17, 34, 127, 128, 255 :: int]. 0 \<le> b \<and> b < 256"
    by simp
  have "canonical_mac [0, 17, 34, 127, 128, 255] = ''00:11:22:7f:80:ff''"
    by code_simp
  then show ?thesis
    using hex_mac_canonical [of "[0, 17, 34, 127, 128, 255]", OF _ bytes] by simp
qed

subsection \<open>Commands and wake end\<close>

lemma dispatch_cmd:
  assumes "py_contains ''wake_start'' msg = Inr False" "py_contains ''wake_end'' msg = Inr False"
    "py_contains ''notify_done'' msg = Inr False" "py_getitem msg ''cmd'' = Inr c"
  shows "handle_message w websocket msg s = on_cmd w websocket msg s"
proof -
  from assms(4) obtain kvs where "msg = JObj kvs"
    by (cases msg) simp_all
  with assms show ?thesis
    by (simp add: handle_message_def split: option.splits)
qed

text \<open>
  C2, as the code has it. Processing a \<open>wake_end\<close> message changes nothing in any
  state: an Open session stays Open, and without a session it is a no-op as well.
\<close>

theorem wake_end_no_op:
  assumes "py_contains ''wake_start'' msg = Inr False" and "py_contains ''wake_end'' msg = Inr True"
  shows "handle_message w websocket msg s = (None, s)"
  using assms by (simp add: handle_message_def)

theorem wake_end_no_op_witness:
  "handle_message example_world 1 wake_end_msg (initial_state\<lparr>wake_session := Some WakeSession\<rparr>)
     = (None, initial_state\<lparr>wake_session := Some \<lparr>events = [], session_done = False\<rparr>\<rparr>)"
proof -
  have "py_contains ''wake_start'' wake_end_msg = Inr False"
    and "py_contains ''wake_end'' wake_end_msg = Inr True"
    by (simp_all add: wake_end_msg_def)
  then show ?thesis
    using wake_end_no_op [of wake_end_msg example_world 1 "initial_state\<lparr>wake_session := Some WakeSession\<rparr>"]
    by (simp add: WakeSession_def)
qed

text \<open>
  C2 as stated fails: after a \<open>wake_start\<close> and a \<open>wake_end\<close> the session is
  still Open.
\<close>

theorem wake_end_counterexample:
  "map_option session_done
     (wake_session (snd (session_loop example_world 1
        [Text ''start'' (Some wake_start_msg), Text ''end'' (Some wake_end_msg)] initial_state)))
   = Some False"
  by (simp add: wake_start_msg_def wake_end_msg_def handle_message_def on_wake_start_def
      open_or_keep_session_def new_wake_session_def record_wake_event_def add_event_def
      WakeSession_def initial_state_def log_call_def)

text \<open>
  C4. An endpoint command that arrives while no command endpoint is installed is answered
  with the fixed speech result \<open>WAS Command Endpoint not active\<close> on the device's own
  connection, and the same line is logged as an error.
\<close>

theorem endpoint_not_active:
  assumes "is_endpoint_command msg" and "command_endpoint s = None"
  shows "handle_message w websocket msg s =
           (None, s\<lparr>outbox := outbox s @
                       [(websocket, Json_dump (CommandEndpointResponse
                           (CommandEndpointResult ''WAS Command Endpoint not active'')))],
                    log := log s @ [Error_not_active]\<rparr>)"
proof -
  from assms(1) have "handle_message w websocket msg s = on_cmd w websocket msg s"
    by (simp add: is_endpoint_command_def dispatch_cmd)
  also from assms have "\<dots> = on_cmd_endpoint w websocket msg s"
    by (simp add: is_endpoint_command_def on_cmd_def)
  finally show ?thesis
    using assms(2)
    by (simp add: on_cmd_endpoint_def send_text_def log_call_def speech_reply_def)
qed

theorem endpoint_not_active_witness:
  "handle_message example_world 1 endpoint_msg initial_state =
     (None, initial_state\<lparr>outbox := [(1, Json_dump (CommandEndpointResponse
                           (CommandEndpointResult ''WAS Command Endpoint not active'')))],
                    log := [Error_not_active]\<rparr>)"
proof -
  have "is_endpoint_command endpoint_msg"
    by (simp add: is_endpoint_command_def endpoint_msg_def)
  moreover have "command_endpoint initial_state = None"
    by (simp add: initial_state_def)
  ultimately show ?thesis
    using endpoint_not_active [of endpoint_msg initial_state example_world 1]
    by (simp add: initial_state_def)
qed

text \<open>
  C5. When the installed adapter's \<open>send\<close> raises the endpoint runtime exception, the
  device is answered with the fixed speech result \<open>WAS Command Endpoint unreachable\<close>,
  the cause is logged, and nothing is raised: the session goes on to await the next
  message.
\<close>

theorem endpoint_unreachable:
  assumes "is_endpoint_command msg" and "command_endpoint s = Some ep"
    and "py_getitem msg ''data'' = Inr data"
    and "ep_send w ep data websocket = Inl (CommandEndpointRuntimeException cause)"
  shows "handle_message w websocket msg s =
           (None, s\<lparr>outbox := outbox s @
                       [(websocket, Json_dump (CommandEndpointResponse
                           (CommandEndpointResult ''WAS Command Endpoint unreachable'')))],
                    log := log s @ [Debug_sending data (ep_name w ep),
                                    Error_unreachable (CommandEndpointRuntimeException cause)]\<rparr>)
       \<and> fst (session_loop w websocket [Text raw (Some msg)] s) = Awaiting"
proof -
  from assms(1) have "handle_message w websocket msg s = on_cmd w websocket msg s"
    by (simp add: is_endpoint_command_def dispatch_cmd)
  also from assms have "\<dots> = on_cmd_endpoint w websocket msg s"
    by (simp add: is_endpoint_command_def on_cmd_def)
  finally have h: "handle_message w websocket msg s = on_cmd_endpoint w websocket msg s" .
  from assms have first: "handle_message w websocket msg s =
           (None, s\<lparr>outbox := outbox s @
                       [(websocket, Json_dump (CommandEndpointResponse
                           (CommandEndpointResult ''WAS Command Endpoint unreachable'')))],
                    log := log s @ [Debug_sending data (ep_name w ep),
                                    Error_unreachable (CommandEndpointRuntimeException cause)]\<rparr>)"
    unfolding h by (simp add: on_cmd_endpoint_def send_text_def log_call_def speech_reply_def)
  from assms have "handle_message w websocket msg (log_call (Debug_data raw) s) =
      on_cmd_endpoint w websocket msg (log_call (Debug_data raw) s)"
    by (simp add: is_endpoint_command_def dispatch_cmd on_cmd_def)
  with assms have "fst (session_loop w websocket [Text raw (Some msg)] s) = Awaiting"
    by (simp add: on_cmd_endpoint_def send_text_def log_call_def speech_reply_def)
  with first show ?thesis by simp
qed

theorem endpoint_unreachable_witness:
  "handle_message example_world 1 endpoint_msg
       (initial_state\<lparr>command_endpoint := Some (OpenhabEndpoint (JStr ''http://oh'') (JStr ''t''))\<rparr>) =
     (None, initial_state\<lparr>command_endpoint := Some (OpenhabEndpoint (JStr ''http://oh'') (JStr ''t'')),
          outbox := [(1, Json_dump (CommandEndpointResponse
                           (CommandEndpointResult ''WAS Command Endpoint unreachable'')))],
          log := [Debug_sending (JObj [(''text'', JStr ''lights on'')]) ''REST'',
                  Error_unreachable (CommandEndpointRuntimeException ''timed out'')]\<rparr>)"
proof -
  have "is_endpoint_command endpoint_msg"
    by (simp add: is_endpoint_command_def endpoint_msg_def)
  moreover have "py_getitem endpoint_msg ''data'' = Inr (JObj [(''text'', JStr ''lights on'')])"
    by (simp add: endpoint_msg_def)
  moreover have "ep_send example_world (OpenhabEndpoint (JStr ''http://oh'') (JStr ''t''))
      (JObj [(''text'', JStr ''lights on'')]) 1 = Inl (CommandEndpointRuntimeException ''timed out'')"
    by (simp add: example_world_def)
  ultimately show ?thesis
    using endpoint_unreachable [of endpoint_msg
        "initial_state\<lparr>command_endpoint := Some (OpenhabEndpoint (JStr ''http://oh'') (JStr ''t''))\<rparr>"
        "OpenhabEndpoint (JStr ''http://oh'') (JStr ''t'')" "JObj [(''text'', JStr ''lights on'')]"
        example_world 1 "''timed out''"]
    by (simp add: initial_state_def example_world_def)
qed

subsection \<open>Wake sessions\<close>

lemma dispatch_wake_start:
  "py_contains ''wake_start'' msg = Inr True \<Longrightarrow>
   handle_message w websocket msg s = on_wake_start websocket msg s"
  by (simp add: handle_message_def)

lemma open_or_keep_session_cases:
  "open_or_keep_session s =
     (case wake_session s of
        None \<Rightarrow> s\<lparr>detached := detached s, wake_session := Some WakeSession,
                  cleanup_tasks := Suc (cleanup_tasks s)\<rparr>
      | Some old \<Rightarrow>
          if session_done old
          then s\<lparr>detached := detached s @ [old], wake_session := Some WakeSession,
                 cleanup_tasks := Suc (cleanup_tasks s)\<rparr>
          else s)"
  by (simp add: open_or_keep_session_def new_wake_session_def split: option.splits)

lemma contains_getitem:
  "py_getitem body k = Inr v \<Longrightarrow> py_contains k body = Inr True"
  by (cases body) (simp_all split: option.splits)

text \<open>What a \<open>wake_start\<close> message makes of the session slot.\<close>

lemma on_wake_start_session:
  assumes "wake_session (open_or_keep_session s) = Some w1"
  shows "wake_session (snd (on_wake_start websocket msg s))
           = Some (w1\<lparr>events := events w1 @ signal_events websocket msg\<rparr>)
       \<and> detached (snd (on_wake_start websocket msg s)) = detached (open_or_keep_session s)"
proof (cases "py_getitem msg ''wake_start''")
  case (Inl e)
  with assms show ?thesis
    by (simp add: on_wake_start_def signal_events_def)
next
  case (Inr body)
  show ?thesis
  proof (cases "py_getitem body ''wake_volume''")
    case (Inl e)
    with Inr assms show ?thesis
      by (simp add: on_wake_start_def signal_events_def Let_def split: sum.splits bool.splits)
  next
    case v: (Inr v)
    then have "py_contains ''wake_volume'' body = Inr True"
      by (rule contains_getitem)
    with Inr v assms show ?thesis
      by (simp add: on_wake_start_def signal_events_def record_wake_event_def add_event_def)
  qed
qed

lemma open_or_keep_session_some:
  "\<exists>w1. wake_session (open_or_keep_session s) = Some w1 \<and> \<not> session_done w1
     \<and> events w1 = open_events s"
  by (simp add: open_or_keep_session_cases open_events_def WakeSession_def split: option.splits)

text \<open>
  C9. A \<open>wake_start\<close> message whose body has no \<open>wake_volume\<close> field leaves the
  events of the Open session as they were (a session is created or kept); one whose
  body has the field appends exactly one event with that volume and the connection it
  came from.
\<close>

theorem wake_volume_event:
  assumes "py_getitem msg ''wake_start'' = Inr body"
  shows "case py_getitem body ''wake_volume'' of
           Inl e \<Rightarrow> open_events (snd (handle_message w websocket msg s)) = open_events s
         | Inr v \<Rightarrow> fst (handle_message w websocket msg s) = None
                   \<and> open_events (snd (handle_message w websocket msg s))
                       = open_events s @ [\<lparr>client = websocket, volume = v\<rparr>]"
proof -
  obtain w1 where w1: "wake_session (open_or_keep_session s) = Some w1" "\<not> session_done w1"
      "events w1 = open_events s"
    using open_or_keep_session_some by blast
  have h: "handle_message w websocket msg s = on_wake_start websocket msg s"
    using assms by (simp add: dispatch_wake_start contains_getitem)
  from w1 have after: "open_events (snd (on_wake_start websocket msg s))
      = open_events s @ signal_events websocket msg"
    using on_wake_start_session [OF w1(1), of websocket msg] by (simp add: open_events_def)
  show ?thesis
  proof (cases "py_getitem body ''wake_volume''")
    case (Inl e)
    with assms after show ?thesis
      by (simp add: h signal_events_def)
  next
    case (Inr v)
    then have "py_contains ''wake_volume'' body = Inr True"
      by (rule contains_getitem)
    with Inr assms w1(1) have "fst (on_wake_start websocket msg s) = None"
      by (simp add: on_wake_start_def record_wake_event_def)
    with Inr assms after show ?thesis
      by (simp add: h signal_events_def)
  qed
qed

theorem wake_volume_event_witness:
  "open_events (snd (handle_message example_world 1 wake_start_msg initial_state))
     = [\<lparr>client = 1, volume = JInt 7\<rparr>]
   \<and> open_events (snd (handle_message example_world 1 (JObj [(''wake_start'', JObj [])]) initial_state))
     = []"
proof -
  have b: "py_getitem wake_start_msg ''wake_start'' = Inr (JObj [(''wake_volume'', JInt 7)])"
    by (simp add: wake_start_msg_def)
  have d: "py_getitem (JObj [(''wake_start'', JObj [])]) ''wake_start'' = Inr (JObj [])"
    by simp
  have e: "open_events initial_state = []"
    by (simp add: open_events_def initial_state_def)
  show ?thesis
    using wake_volume_event [OF b, of example_world 1 initial_state]
      wake_volume_event [OF d, of example_world 1 initial_state] e
    by simp
qed

subsection \<open>At most one Open session\<close>

text \<open>Only the \<open>wake_start\<close> branch and the cleanup task touch a session object.\<close>

lemma and_then_detached:
  assumes "detached (snd r) = d" and "\<And>s1. detached s1 = d \<Longrightarrow> detached (snd (f s1)) = d"
  shows "detached (snd (and_then r f)) = d"
  using assms by (cases r) (auto simp: and_then_def split: option.splits)

lemma hello_field_detached:
  "detached (snd (hello_field websocket msg key field convert s)) = detached s"
  by (simp add: hello_field_def update_client_def split: sum.splits bool.splits option.splits)

lemma on_hello_detached: "detached (snd (on_hello w websocket msg s)) = detached s"
  unfolding on_hello_def
  by (intro and_then_detached) (simp_all add: hello_field_detached)

lemma on_cmd_endpoint_detached: "detached (snd (on_cmd_endpoint w websocket msg s)) = detached s"
proof -
  have raised: "detached (snd (endpoint_raised websocket e s1)) = detached s1" for e s1
    by (cases e) (simp_all add: log_call_def send_text_def)
  show ?thesis
    by (simp add: on_cmd_endpoint_def raised log_call_def send_text_def Let_def
        split: sum.splits option.splits)
qed

lemma on_cmd_detached: "detached (snd (on_cmd w websocket msg s)) = detached s"
  by (simp add: on_cmd_def on_cmd_endpoint_detached send_text_def split: sum.splits)

lemma on_notify_done_detached: "detached (snd (on_notify_done websocket msg s)) = detached s"
  by (simp add: on_notify_done_def notify_done_def split: sum.splits)

lemma on_wake_start_detached_done:
  assumes "detached_done s"
  shows "detached_done (snd (on_wake_start websocket msg s))"
proof -
  obtain w1 where "wake_session (open_or_keep_session s) = Some w1"
    using open_or_keep_session_some by blast
  then have "detached (snd (on_wake_start websocket msg s)) = detached (open_or_keep_session s)"
    using on_wake_start_session by blast
  with assms show ?thesis
    by (simp add: detached_done_def open_or_keep_session_cases split: option.splits)
qed

lemma handle_message_detached_done:
  assumes "detached_done s"
  shows "detached_done (snd (handle_message w websocket msg s))"
  using assms
  by (simp add: handle_message_def detached_done_def on_wake_start_detached_done [unfolded detached_done_def]
      on_notify_done_detached on_cmd_detached on_hello_detached disconnect_def
      split: sum.splits bool.splits)

lemma loop_raised_detached: "detached (snd (loop_raised websocket e s)) = detached s"
  by (simp add: loop_raised_def disconnect_def log_call_def)

lemma loop_pass_detached_done:
  assumes "detached_done s"
  shows "detached_done (loop_pass w websocket f s)"
proof (cases f)
  case (Receive_raises e)
  with assms show ?thesis
    by (simp add: loop_pass_def detached_done_def loop_raised_detached)
next
  case (Text data decoded)
  have logged: "detached_done (log_call (Debug_data data) s)"
    using assms by (simp add: detached_done_def log_call_def)
  show ?thesis
  proof (cases decoded)
    case None
    with Text logged show ?thesis
      by (simp add: loop_pass_def detached_done_def loop_raised_detached)
  next
    case (Some msg)
    obtain r s2 where h: "handle_message w websocket msg (log_call (Debug_data data) s) = (r, s2)"
      by (cases "handle_message w websocket msg (log_call (Debug_data data) s)")
    then have "detached_done s2"
      using handle_message_detached_done [OF logged, of w websocket msg] by simp
    with Text Some h show ?thesis
      by (cases r) (simp_all add: loop_pass_def detached_done_def loop_raised_detached)
  qed
qed

lemma cleanup_detached_done:
  assumes "detached_done s"
  shows "detached_done (cleanup t s)"
proof (cases t)
  case Current
  with assms show ?thesis
    by (simp add: detached_done_def split: option.splits)
next
  case (Detached i)
  with assms show ?thesis
    by (auto simp: detached_done_def list_all_iff dest: set_update_subset_insert [THEN subsetD])
qed

lemma select_endpoint_detached: "detached (snd (select_endpoint user_config s)) = detached s"
  by (simp add: select_endpoint_def install_or_raise_def rest_endpoint_def install_def
      log_call_def Let_def split: sum.splits option.splits)

lemma init_command_endpoint_detached:
  "detached (snd (init_command_endpoint w s)) = detached s"
proof -
  have "detached (snd (stop_previous w s)) = detached s"
    by (simp add: stop_previous_def Let_def split: option.splits)
  then show ?thesis
    unfolding init_command_endpoint_def
    by (rule and_then_detached) (simp add: select_endpoint_detached split: sum.splits)
qed

lemma reachable_detached_done: "reachable s \<Longrightarrow> detached_done s"
proof (induction rule: reachable.induct)
  case start
  show ?case by (simp add: detached_done_def initial_state_def)
next
  case (accepted s websocket c)
  then show ?case by (simp add: detached_done_def accept_def)
next
  case (passed s w websocket f)
  from passed.IH show ?case by (rule loop_pass_detached_done)
next
  case (cleaned s t)
  from cleaned.IH show ?case by (rule cleanup_detached_done)
next
  case (configured s w)
  then show ?case by (simp add: detached_done_def init_command_endpoint_detached)
qed

lemma detached_done_one_open: "detached_done s \<Longrightarrow> length (open_sessions s) \<le> 1"
proof -
  assume "detached_done s"
  then have "filter (\<lambda>w. \<not> session_done w) (detached s) = []"
    by (simp add: detached_done_def list_all_iff filter_empty_conv)
  then show ?thesis
    by (simp add: open_sessions_def all_sessions_def split: option.splits)
qed

text \<open>
  C3. In every state the process can reach at most one session is Open. A
  \<open>wake_start\<close> puts a fresh Open session in the slot when there is none or the one
  there is Done (the stale one is set aside as it is, nothing is appended to it), and
  appends to the session in the slot when that one is Open.
\<close>

theorem single_open_session:
  assumes "reachable s" and "py_contains ''wake_start'' msg = Inr True"
  shows "length (open_sessions s) \<le> 1
       \<and> (let s' = snd (handle_message w websocket msg s);
               fresh = \<lparr>events = signal_events websocket msg, session_done = False\<rparr>
          in case wake_session s of
               None \<Rightarrow> wake_session s' = Some fresh \<and> detached s' = detached s
             | Some old \<Rightarrow>
                 if session_done old
                 then wake_session s' = Some fresh \<and> detached s' = detached s @ [old]
                 else wake_session s' = Some (old\<lparr>events := events old @ signal_events websocket msg\<rparr>)
                      \<and> detached s' = detached s)"
proof -
  have one: "length (open_sessions s) \<le> 1"
    using assms(1) by (intro detached_done_one_open reachable_detached_done)
  have h: "handle_message w websocket msg s = on_wake_start websocket msg s"
    using assms(2) by (rule dispatch_wake_start)
  obtain w1 where w1: "wake_session (open_or_keep_session s) = Some w1"
    using open_or_keep_session_some by blast
  note after = on_wake_start_session [OF w1, of websocket msg]
  from w1 have "w1 = (case wake_session s of None \<Rightarrow> WakeSession
      | Some old \<Rightarrow> if session_done old then WakeSession else old)"
    by (simp add: open_or_keep_session_cases split: option.splits if_splits)
  with after have "case wake_session s of
               None \<Rightarrow> wake_session (snd (on_wake_start websocket msg s))
                          = Some \<lparr>events = signal_events websocket msg, session_done = False\<rparr>
                        \<and> detached (snd (on_wake_start websocket msg s)) = detached s
             | Some old \<Rightarrow>
                 if session_done old
                 then wake_session (snd (on_wake_start websocket msg s))
                          = Some \<lparr>events = signal_events websocket msg, session_done = False\<rparr>
                      \<and> detached (snd (on_wake_start websocket msg s)) = detached s @ [old]
                 else wake_session (snd (on_wake_start websocket msg s))
                          = Some (old\<lparr>events := events old @ signal_events websocket msg\<rparr>)
                      \<and> detached (snd (on_wake_start websocket msg s)) = detached s"
    by (simp add: open_or_keep_session_cases WakeSession_def split: option.splits)
  with one show ?thesis
    by (simp add: h Let_def)
qed

theorem single_open_session_witness:
  "length (open_sessions (loop_pass example_world 1 (Text ''start'' (Some wake_start_msg)) initial_state)) \<le> 1
   \<and> wake_session (snd (handle_message example_world 2
        (JObj [(''wake_start'', JObj [(''wake_volume'', JInt 9)])])
        (loop_pass example_world 1 (Text ''start'' (Some wake_start_msg)) initial_state)))
     = Some \<lparr>events = [\<lparr>client = 1, volume = JInt 7\<rparr>, \<lparr>client = 2, volume = JInt 9\<rparr>],
             session_done = False\<rparr>"
proof -
  have r: "reachable (loop_pass example_world 1 (Text ''start'' (Some wake_start_msg)) initial_state)"
    by (intro reachable.passed reachable.start)
  have c: "py_contains ''wake_start'' (JObj [(''wake_start'', JObj [(''wake_volume'', JInt 9)])]) = Inr True"
    by simp
  have before: "wake_session (loop_pass example_world 1 (Text ''start'' (Some wake_start_msg)) initial_state)
      = Some \<lparr>events = [\<lparr>client = 1, volume = JInt 7\<rparr>], session_done = False\<rparr>"
    by (simp add: loop_pass_def wake_start_msg_def handle_message_def on_wake_start_def
        open_or_keep_session_def new_wake_session_def record_wake_event_def add_event_def
        WakeSession_def initial_state_def log_call_def)
  show ?thesis
    using single_open_session [OF r c, of example_world 2] before
    by (simp add: signal_events_def Let_def)
qed

subsection \<open>Failures inside the read loop\<close>

lemma loop_raised_not_awaiting: "fst (loop_raised websocket e s) \<noteq> Awaiting"
  by (simp add: loop_raised_def)

lemma session_loop_append:
  "session_loop w websocket before s = (Awaiting, s1) \<Longrightarrow>
   session_loop w websocket (before @ fs) s = session_loop w websocket fs s1"
proof (induction before arbitrary: s)
  case Nil
  then show ?case by simp
next
  case (Cons f before)
  obtain r s2 where body: "loop_body w websocket f s = (r, s2)"
    by (cases "loop_body w websocket f s")
  show ?case
  proof (cases r)
    case None
    with body Cons show ?thesis by simp
  next
    case (Some e)
    with body Cons.prems have "loop_raised websocket e s2 = (Awaiting, s1)" by simp
    then have False
      using loop_raised_not_awaiting [of websocket e s2] by simp
    then show ?thesis ..
  qed
qed

text \<open>
  C1, as the code has it. When handling a frame raises an exception other than the two
  transport exceptions, a malformed body among them, the exception is caught and
  logged, and the handler returns: the loop has ended, the frames after it are not
  processed and the connection is left in the registry.
\<close>

theorem unexpected_failure_ends_loop:
  assumes "session_loop w websocket before s = (Awaiting, s1)"
    and "loop_body w websocket f s1 = (Some e, s2)"
    and "is_Exception e" and "e \<noteq> WebSocketDisconnect" and "e \<noteq> ConnectionClosed"
  shows "session_loop w websocket (before @ f # after) s
           = (Returned, s2\<lparr>log := log s2 @ [Error_unhandled e]\<rparr>)
       \<and> loop_body w websocket (Text data None) s1
           = (Some JSONDecodeError, s1\<lparr>log := log s1 @ [Debug_data data]\<rparr>)"
proof -
  have "session_loop w websocket (before @ f # after) s = session_loop w websocket (f # after) s1"
    using assms(1) by (rule session_loop_append)
  with assms(2-5) show ?thesis
    by (simp add: loop_raised_def log_call_def)
qed

theorem unexpected_failure_ends_loop_witness:
  "session_loop example_world 1 ([] @ Text ''{'' None # [Text ''hello'' (Some hello_msg)]) initial_state
     = (Returned, initial_state\<lparr>log := [Debug_data ''{'', Error_unhandled JSONDecodeError]\<rparr>)"
proof -
  have a: "session_loop example_world 1 [] initial_state = (Awaiting, initial_state)"
    by simp
  have b: "loop_body example_world 1 (Text ''{'' None) initial_state
      = (Some JSONDecodeError, initial_state\<lparr>log := [Debug_data ''{'']\<rparr>)"
    by (simp add: log_call_def initial_state_def)
  have c: "is_Exception JSONDecodeError" "JSONDecodeError \<noteq> WebSocketDisconnect"
    "JSONDecodeError \<noteq> ConnectionClosed"
    by simp_all
  show ?thesis
    using unexpected_failure_ends_loop [OF a b c, of "[Text ''hello'' (Some hello_msg)]" "''{''"]
    by (simp add: initial_state_def loop_raised_def log_call_def)
qed

text \<open>
  C1 as stated fails: after an undecodable frame the handler has returned, and the hello
  message that follows it is not processed. (The same hello message alone is.)
\<close>

theorem malformed_body_counterexample:
  "fst (websocket_endpoint example_world 1 None
          [Text ''{'' None, Text ''hello'' (Some hello_msg)] initial_state) = Returned
   \<and> map_option hostname (map_of (connmgr (snd (websocket_endpoint example_world 1 None
          [Text ''{'' None, Text ''hello'' (Some hello_msg)] initial_state))) 1) = Some None
   \<and> map_option hostname (map_of (connmgr (snd (websocket_endpoint example_world 1 None
          [Text ''hello'' (Some hello_msg)] initial_state))) 1) = Some (Some (JStr ''kitchen''))"
  by (simp add: websocket_endpoint_def accept_def initial_state_def log_call_def loop_raised_def
      hello_msg_def handle_message_def on_hello_def hello_field_def and_then_def
      update_client_def set_field_def format_02x_def hex_digits.simps hex_digit_def)


subsection \<open>Hello messages and the registry\<close>













subsection \<open>Installing a command endpoint\<close>

lemma stop_previous_failed:
  assumes "command_endpoint s = Some ep" and "ep_stop w ep = Some e" and "is_Exception e"
  shows "stop_previous w s = (None, s\<lparr>stop_calls := stop_calls s @ [ep]\<rparr>)"
  using assms by (simp add: stop_previous_def)

lemma stop_previous_returned:
  assumes "command_endpoint s = Some ep"
  shows "stop_previous (w\<lparr>ep_stop := \<lambda>ep. None\<rparr>) s = (None, s\<lparr>stop_calls := stop_calls s @ [ep]\<rparr>)"
  using assms by (simp add: stop_previous_def)

text \<open>
  C7, as the code has it. \<open>init_command_endpoint\<close> first calls \<open>stop()\<close> on the
  adapter installed so far. An exception raised by that call is passed over in silence:
  it is not logged and does not reach the caller, and the function goes on to read the
  configuration and install the new adapter exactly as after a \<open>stop()\<close> that returned.
\<close>

theorem stop_failure_passed_over:
  assumes "command_endpoint s = Some ep" and "ep_stop w ep = Some e" and "is_Exception e"
  shows "init_command_endpoint w s =
           (case get_config_db w of
              Inl e' \<Rightarrow> (Some e', s\<lparr>stop_calls := stop_calls s @ [ep]\<rparr>)
            | Inr user_config \<Rightarrow> select_endpoint user_config (s\<lparr>stop_calls := stop_calls s @ [ep]\<rparr>))
       \<and> init_command_endpoint w s = init_command_endpoint (w\<lparr>ep_stop := \<lambda>ep. None\<rparr>) s"
  using stop_previous_failed [OF assms] stop_previous_returned [OF assms(1), of w]
  by (simp add: init_command_endpoint_def and_then_def)

theorem stop_failure_passed_over_witness:
  "init_command_endpoint example_world (initial_state\<lparr>command_endpoint := Some example_endpoint\<rparr>)
     = (None, initial_state
          \<lparr>command_endpoint := Some (RestEndpoint (JStr ''http://hub/api'')
               \<lparr>rest_auth_type = None, rest_auth_header = None,
                rest_auth_pass = Some (JStr ''secret''), rest_auth_user = Some (JStr ''willow'')\<rparr>),
           stop_calls := [example_endpoint], log := [Info_was_mode_enabled]\<rparr>)"
proof -
  have a: "command_endpoint (initial_state\<lparr>command_endpoint := Some example_endpoint\<rparr>)
      = Some example_endpoint"
    by simp
  have b: "ep_stop example_world example_endpoint = Some (OtherException ''stop failed'')"
    by (simp add: example_world_def)
  have c: "is_Exception (OtherException ''stop failed'')"
    by simp
  have d: "select_endpoint example_config
      (initial_state\<lparr>command_endpoint := Some example_endpoint, stop_calls := [example_endpoint]\<rparr>)
     = (None, initial_state
          \<lparr>command_endpoint := Some (RestEndpoint (JStr ''http://hub/api'')
               \<lparr>rest_auth_type = None, rest_auth_header = None,
                rest_auth_pass = Some (JStr ''secret''), rest_auth_user = Some (JStr ''willow'')\<rparr>),
           stop_calls := [example_endpoint], log := [Info_was_mode_enabled]\<rparr>)"
    by (simp add: select_endpoint_def example_config_def rest_endpoint_def config_get_def
        config_maybe_def hasattr_def dict_attributes_def install_def log_call_def
        initial_state_def bind_exn_def)
  show ?thesis
    using stop_failure_passed_over [OF a b c] d
    by (simp add: example_world_def initial_state_def)
qed

text \<open>
  C7 as stated fails: the previous adapter's \<open>stop()\<close> raises, and after the call the
  log is empty.
\<close>

theorem stop_failure_counterexample:
  "ep_stop example_world example_endpoint = Some (OtherException ''stop failed'')
   \<and> init_command_endpoint (example_world\<lparr>get_config_db := Inr []\<rparr>)
        (initial_state\<lparr>command_endpoint := Some example_endpoint\<rparr>)
     = (None, initial_state\<lparr>command_endpoint := Some example_endpoint,
                            stop_calls := [example_endpoint]\<rparr>)
   \<and> log (snd (init_command_endpoint (example_world\<lparr>get_config_db := Inr []\<rparr>)
        (initial_state\<lparr>command_endpoint := Some example_endpoint\<rparr>))) = []"
  by (simp add: init_command_endpoint_def stop_previous_def and_then_def select_endpoint_def
      example_world_def initial_state_def)

text \<open>
  C10. With a stored configuration (a dictionary) that selects the \<open>REST\<close> endpoint,
  \<open>init_command_endpoint\<close> never applies \<open>rest_auth_type\<close>: \<open>hasattr\<close> is false for
  a key of a dictionary. The header, password and user are applied whenever their keys
  are in the dictionary.
\<close>

theorem rest_auth_type_not_applied:
  assumes "get_config_db w = Inr user_config"
    and "map_of user_config ''was_mode'' = Some mode" and "truthy mode"
    and "map_of user_config ''command_endpoint'' = Some (JStr ''REST'')"
    and "map_of user_config ''rest_url'' = Some url"
    and "fst (stop_previous w s) = None"
  shows "\<not> hasattr user_config ''rest_auth_type''
       \<and> fst (init_command_endpoint w s) = None
       \<and> command_endpoint (snd (init_command_endpoint w s))
           = Some (RestEndpoint url
                    \<lparr>rest_auth_type = None,
                     rest_auth_header = map_of user_config ''rest_auth_header'',
                     rest_auth_pass = map_of user_config ''rest_auth_pass'',
                     rest_auth_user = map_of user_config ''rest_auth_user''\<rparr>)"
proof -
  have no_attr: "\<not> hasattr user_config ''rest_auth_type''"
    by (simp add: hasattr_def dict_attributes_def)
  obtain s1 where s1: "stop_previous w s = (None, s1)"
    using assms(6) by (cases "stop_previous w s") simp
  have "select_endpoint user_config s1
     = (None, install (RestEndpoint url
                    \<lparr>rest_auth_type = None,
                     rest_auth_header = map_of user_config ''rest_auth_header'',
                     rest_auth_pass = map_of user_config ''rest_auth_pass'',
                     rest_auth_user = map_of user_config ''rest_auth_user''\<rparr>)
                (install (RestEndpoint url
                    \<lparr>rest_auth_type = None, rest_auth_header = None,
                     rest_auth_pass = None, rest_auth_user = None\<rparr>)
                  (log_call Info_was_mode_enabled s1)))"
    using assms(2-5) no_attr
    by (simp add: select_endpoint_def rest_endpoint_def config_get_def config_maybe_def)
  with s1 assms(1) no_attr show ?thesis
    by (simp add: init_command_endpoint_def and_then_def install_def)
qed

theorem rest_auth_type_not_applied_witness:
  "map_of example_config ''rest_auth_type'' = Some (JStr ''Basic'')
   \<and> command_endpoint (snd (init_command_endpoint example_world initial_state))
     = Some (RestEndpoint (JStr ''http://hub/api'')
               \<lparr>rest_auth_type = None, rest_auth_header = None,
                rest_auth_pass = Some (JStr ''secret''), rest_auth_user = Some (JStr ''willow'')\<rparr>)"
proof -
  have a: "get_config_db example_world = Inr example_config"
    by (simp add: example_world_def)
  have b: "map_of example_config ''was_mode'' = Some (JBool True)" "truthy (JBool True)"
    "map_of example_config ''command_endpoint'' = Some (JStr ''REST'')"
    "map_of example_config ''rest_url'' = Some (JStr ''http://hub/api'')"
    by (simp_all add: example_config_def)
  have c: "fst (stop_previous example_world initial_state) = None"
    by (simp add: stop_previous_def initial_state_def)
  show ?thesis
    using rest_auth_type_not_applied [OF a b c]
    by (simp add: example_config_def)
qed

end
